theory Spec2Isabelle
  imports Main "HOL-Library.Word"
begin

section \<open>JavaScript strings\<close>

text \<open>
  A JavaScript string is a sequence of UTF-16 code units: \<open>length\<close> and \<open>slice\<close> count
  code units, and the ellipsis U+2026 is one of them. String literals of the source that
  are plain ASCII are written \<open>lit ''...''\<close>; any other literal is written as its code
  units.
\<close>

type_synonym jsstring = "16 word list"

definition lit :: "string \<Rightarrow> jsstring" where
  "lit s = map (\<lambda>c. of_nat (of_char c)) s"

text \<open>
  \<open>s.slice(start)\<close> and \<open>s.slice(start, end)\<close>: a negative index counts from the end,
  both indices are clamped to the string, and the result is empty when the start is not
  before the end.
\<close>

definition slice_index :: "int \<Rightarrow> nat \<Rightarrow> nat" where
  "slice_index i len = (if i < 0 then nat (max (int len + i) 0) else min (nat i) len)"

definition slice2 :: "int \<Rightarrow> int \<Rightarrow> 'a list \<Rightarrow> 'a list" where
  "slice2 start end s =
     (let from = slice_index start (length s); to = slice_index end (length s)
      in take (to - from) (drop from s))"

definition slice1 :: "int \<Rightarrow> 'a list \<Rightarrow> 'a list" where
  "slice1 start s = drop (slice_index start (length s)) s"

text \<open>The exceptions the modelled code can meet.\<close>

datatype error =
    SyntaxError  \<comment> \<open>an invalid selector, or \<open>JSON.parse\<close> on malformed text\<close>
  | NoProvider   \<comment> \<open>\<open>new Error('No Ethereum provider detected.')\<close>\<close>
  | Rejection    \<comment> \<open>an awaited promise of a collaborator was rejected\<close>

section \<open>NavDrawer (src/unnamed/part_000)\<close>

subsection \<open>The drawer's elements and the selector\<close>

text \<open>
  An element of the drawer: the identity of its node, its tag, its attributes, and whether
  its \<open>offsetParent\<close> is \<open>null\<close> (it is not rendered).
\<close>

record element =
  node :: nat
  tagName :: jsstring
  attributes :: "(jsstring \<times> jsstring) list"
  offsetParent_null :: bool

text \<open>
  The selectors of \<open>focusableSelector\<close>, as syntax trees. \<open>[a]\<close>, \<open>[a='v']\<close> and
  \<open>:not(...)\<close> are CSS. \<open>[a!='v']\<close> is written in the source
  (\<open>input[type!='hidden']\<close>) but is no attribute selector of CSS (the matchers are
  \<open>=\<close>, \<open>~=\<close>, \<open>|=\<close>, \<open>^=\<close>, \<open>$=\<close>, \<open>*=\<close>): \<open>querySelectorAll\<close> throws a
  \<open>SyntaxError\<close> for a selector list that holds it.
\<close>

datatype attr_test =
    HasAttr jsstring
  | AttrEq jsstring jsstring
  | AttrNotEq jsstring jsstring

datatype simple_selector =
    Tag jsstring
  | Attr attr_test
  | Not_sel attr_test

type_synonym compound_selector = "simple_selector list"

fun valid_test :: "attr_test \<Rightarrow> bool" where
  "valid_test (HasAttr a) = True"
| "valid_test (AttrEq a v) = True"
| "valid_test (AttrNotEq a v) = False"

fun valid_simple :: "simple_selector \<Rightarrow> bool" where
  "valid_simple (Tag t) = True"
| "valid_simple (Attr a) = valid_test a"
| "valid_simple (Not_sel a) = valid_test a"

fun test_holds :: "element \<Rightarrow> attr_test \<Rightarrow> bool" where
  "test_holds e (HasAttr a) = (map_of (attributes e) a \<noteq> None)"
| "test_holds e (AttrEq a v) = (map_of (attributes e) a = Some v)"
| "test_holds e (AttrNotEq a v) = False"

fun matches_simple :: "element \<Rightarrow> simple_selector \<Rightarrow> bool" where
  "matches_simple e (Tag t) = (tagName e = t)"
| "matches_simple e (Attr a) = test_holds e a"
| "matches_simple e (Not_sel a) = (\<not> test_holds e a)"

definition matches_sel :: "compound_selector list \<Rightarrow> element \<Rightarrow> bool" where
  "matches_sel sel e = list_ex (\<lambda>c. list_all (matches_simple e) c) sel"

text \<open>
  \<open>root.querySelectorAll(sel)\<close> over the descendants of the root in document order: one
  invalid selector makes the whole list invalid and the call throw.
\<close>

definition querySelectorAll :: "compound_selector list \<Rightarrow> element list \<Rightarrow> error + element list" where
  "querySelectorAll sel descendants =
     (if list_all (list_all valid_simple) sel then Inr (filter (matches_sel sel) descendants)
      else Inl SyntaxError)"

definition focusableSelector :: "compound_selector list" where
  "focusableSelector =
     [ [Tag (lit ''a''), Attr (HasAttr (lit ''href''))],
       [Tag (lit ''button''), Not_sel (HasAttr (lit ''disabled''))],
       [Tag (lit ''textarea''), Not_sel (HasAttr (lit ''disabled''))],
       [Tag (lit ''input''), Attr (AttrNotEq (lit ''type'') (lit ''hidden'')),
          Not_sel (HasAttr (lit ''disabled''))],
       [Tag (lit ''select''), Not_sel (HasAttr (lit ''disabled''))],
       [Attr (HasAttr (lit ''tabindex'')), Not_sel (AttrEq (lit ''tabindex'') (lit ''-1''))] ]"

subsection \<open>The drawer's state and its operations\<close>

text \<open>
  What the script reads and writes: the drawer's \<open>hidden\<close> flag and its descendants, the
  \<open>aria-expanded\<close> attribute of every toggle button, the \<open>is-nav-open\<close> class of the
  body, \<open>document.activeElement\<close> (a node, when there is one), the module's
  \<open>lastActiveElement\<close>, and whether the two document listeners are installed.
\<close>

record nav =
  drawer_hidden :: bool
  drawer_descendants :: "element list"
  aria_expanded :: "jsstring option list"
  body_is_nav_open :: bool
  activeElement :: "nat option"
  lastActiveElement :: "nat option"
  keydown_listener :: bool
  click_listener :: bool

text \<open>
  \<open>getFocusable\<close>: the second disjunct of the filter, \<open>drawer === el\<close>, is never true
  of a descendant.
\<close>

definition getFocusable :: "nav \<Rightarrow> error + element list" where
  "getFocusable s =
     (case querySelectorAll focusableSelector (drawer_descendants s) of
        Inl e \<Rightarrow> Inl e
      | Inr els \<Rightarrow> Inr (filter (\<lambda>el. \<not> offsetParent_null el) els))"

definition setAria :: "bool \<Rightarrow> nav \<Rightarrow> nav" where
  "setAria expanded s =
     s\<lparr>aria_expanded :=
         map (\<lambda>_. Some (if expanded then lit ''true'' else lit ''false'')) (aria_expanded s)\<rparr>"

definition focus :: "nat \<Rightarrow> nav \<Rightarrow> nav" where
  "focus n s = s\<lparr>activeElement := Some n\<rparr>"

text \<open>
  \<open>openDrawer\<close> returns the exception it throws, if any, beside the state it leaves: what
  was assigned before a throw stays assigned.
\<close>

definition openDrawer :: "nav \<Rightarrow> error option \<times> nav" where
  "openDrawer s =
     (if \<not> drawer_hidden s then (None, s)
      else
        let s1 = s\<lparr>lastActiveElement := activeElement s\<rparr>;
            s2 = s1\<lparr>drawer_hidden := False\<rparr>;
            s3 = s2\<lparr>body_is_nav_open := True\<rparr>;
            s4 = setAria True s3
        in case getFocusable s4 of
             Inl e \<Rightarrow> (Some e, s4)
           | Inr focusable \<Rightarrow>
               let s5 = (if focusable \<noteq> [] then focus (node (hd focusable)) s4 else s4)
               in (None, s5\<lparr>keydown_listener := True, click_listener := True\<rparr>))"

definition closeDrawer :: "nav \<Rightarrow> nav" where
  "closeDrawer s =
     (if drawer_hidden s then s
      else
        let s1 = s\<lparr>drawer_hidden := True\<rparr>;
            s2 = s1\<lparr>body_is_nav_open := False\<rparr>;
            s3 = setAria False s2;
            s4 = s3\<lparr>keydown_listener := False, click_listener := False\<rparr>
        in case lastActiveElement s4 of
             None \<Rightarrow> s4
           | Some n \<Rightarrow> focus n s4)"

record key_event =
  key :: jsstring
  shiftKey :: bool

text \<open>
  The part of \<open>handleKeydown\<close> that follows \<open>getFocusable\<close>, for a Tab: it returns
  whether \<open>event.preventDefault()\<close> was called, and the state.
\<close>

definition trap_focus :: "element list \<Rightarrow> key_event \<Rightarrow> nav \<Rightarrow> bool \<times> nav" where
  "trap_focus focusable event s =
     (if focusable = [] then (True, s)
      else
        let first = hd focusable; last_el = last focusable
        in if \<not> shiftKey event \<and> activeElement s = Some (node last_el)
           then (True, focus (node first) s)
           else if shiftKey event \<and> activeElement s = Some (node first)
           then (True, focus (node last_el) s)
           else (False, s))"

text \<open>
  \<open>handleKeydown\<close> returns the exception thrown (if any), whether
  \<open>event.preventDefault()\<close> was called, and the state.
\<close>

definition handleKeydown :: "key_event \<Rightarrow> nav \<Rightarrow> error option \<times> bool \<times> nav" where
  "handleKeydown event s =
     (if key event = lit ''Escape'' then (None, True, closeDrawer s)
      else if key event \<noteq> lit ''Tab'' then (None, False, s)
      else case getFocusable s of
             Inl e \<Rightarrow> (Some e, False, s)
           | Inr focusable \<Rightarrow> (None, trap_focus focusable event s))"

text \<open>A sequence of calls, each made from its own event: a throw ends one call only.\<close>

datatype drawer_call = OpenDrawer | CloseDrawer

fun run_call :: "nav \<Rightarrow> drawer_call \<Rightarrow> nav" where
  "run_call s OpenDrawer = snd (openDrawer s)"
| "run_call s CloseDrawer = closeDrawer s"

definition run_calls :: "drawer_call list \<Rightarrow> nav \<Rightarrow> nav" where
  "run_calls cs s = foldl run_call s cs"

section \<open>WalletConnect (src/static/js/wallet-connect.js, the first script)\<close>

subsection \<open>State\<close>

text \<open>
  How an awaited promise settles. The two awaits of \<open>hydrateFromServer\<close> (the fetch and
  \<open>response.json()\<close>) settle as one.
\<close>

datatype 'a settled = Rejects | Resolves 'a

text \<open>
  The requests to \<open>/authz/session\<close>. The POST carries \<open>JSON.stringify({ address })\<close>; an
  address is a string, or \<open>undefined\<close> (\<open>None\<close>).
\<close>

datatype request = GET_session | POST_session "jsstring option" | DELETE_session

datatype console_level = Console_error | Console_warn | Console_info

text \<open>
  What the module does that can be seen from outside, in the order it happens: a fetch is
  issued, a fetch settles (\<open>True\<close>: fulfilled), a line goes to the console, the connected
  or the disconnected state is painted.
\<close>

datatype event =
    Fetch request
  | Settle request bool
  | Console console_level string
  | ShowConnected
  | ShowDisconnected

text \<open>The Web3Modal instance, by the optional methods the code probes.\<close>

record modal_caps =
  has_openModal :: bool
  has_getWalletProvider :: bool

datatype raw_provider = ModalProvider | InjectedProvider
datatype provider = BrowserProvider raw_provider
datatype signer = Signer

datatype click_handler = HandleConnectClick | HandleDisconnectClick

text \<open>The connect button: text, class list, click listeners, \<open>dataset.connectedAddress\<close>.\<close>

record button =
  btn_textContent :: jsstring
  btn_classList :: "jsstring set"
  btn_click :: "click_handler set"
  btn_connectedAddress :: "jsstring option"

text \<open>The address label: text and \<open>dataset.state\<close>.\<close>

record address_target =
  tgt_textContent :: jsstring
  tgt_state :: "jsstring option"

text \<open>
  The module's variables (\<open>modal\<close>, \<open>provider\<close>, \<open>signer\<close>, \<open>walletAddress\<close>,
  \<open>saving\<close>), the two elements the selectors find (\<open>None\<close>: no such element), the
  requests in flight and the trace of events.
\<close>

record wallet =
  modal :: "modal_caps option"
  provider :: "provider option"
  signer :: "signer option"
  walletAddress :: "jsstring option"
  saving :: bool
  button :: "button option"
  addressTarget :: "address_target option"
  inflight :: "request list"
  trace :: "event list"

definition emit :: "event \<Rightarrow> wallet \<Rightarrow> wallet" where
  "emit e s = s\<lparr>trace := trace s @ [e]\<rparr>"

definition issue :: "request \<Rightarrow> wallet \<Rightarrow> wallet" where
  "issue r s = emit (Fetch r) (s\<lparr>inflight := inflight s @ [r]\<rparr>)"

definition settle :: "request \<Rightarrow> 'a settled \<Rightarrow> wallet \<Rightarrow> wallet" where
  "settle r oc s =
     emit (Settle r (case oc of Rejects \<Rightarrow> False | Resolves _ \<Rightarrow> True))
       (s\<lparr>inflight := remove1 r (inflight s)\<rparr>)"

subsection \<open>Rendering\<close>

text \<open>
  \<open>shortAddress\<close>. The literal between the two slices is, in the source file, the three
  characters U+00E2 U+20AC U+00A6 (the bytes C3 A2, E2 82 AC, C2 A6), not the ellipsis
  U+2026 that \<open>renderRow\<close> of the monitoring script has at the same place.
\<close>

definition shortAddress_separator :: jsstring where
  "shortAddress_separator = [0xE2, 0x20AC, 0xA6]"

definition ellipsis :: jsstring where
  "ellipsis = [0x2026]"

definition shortAddress :: "jsstring option \<Rightarrow> jsstring" where
  "shortAddress address =
     (case address of
        None \<Rightarrow> []
      | Some a \<Rightarrow>
          if a = [] \<or> length a < 10 then a
          else slice2 0 6 a @ shortAddress_separator @ slice1 (- 4) a)"

text \<open>Assigning to a \<open>dataset\<close> entry stores the value as a string.\<close>

definition to_dataset :: "jsstring option \<Rightarrow> jsstring" where
  "to_dataset v = (case v of None \<Rightarrow> lit ''undefined'' | Some a \<Rightarrow> a)"

definition renderConnectedState :: "wallet \<Rightarrow> wallet" where
  "renderConnectedState s =
     (case (button s, addressTarget s) of
        (Some b, Some t) \<Rightarrow>
          emit ShowConnected
            (s\<lparr>button := Some (b\<lparr>
                   btn_textContent := lit ''Disconnect'',
                   btn_classList :=
                     insert (lit ''ui-button--secondary'') (btn_classList b)
                       - {lit ''ui-button--primary''},
                   btn_click := insert HandleDisconnectClick (btn_click b - {HandleConnectClick}),
                   btn_connectedAddress := Some (to_dataset (walletAddress s))\<rparr>),
               addressTarget := Some (t\<lparr>
                   tgt_textContent := shortAddress (walletAddress s),
                   tgt_state := Some (lit ''connected'')\<rparr>)\<rparr>)
      | _ \<Rightarrow> s)"

definition renderDisconnectedState :: "jsstring \<Rightarrow> wallet \<Rightarrow> wallet" where
  "renderDisconnectedState label s =
     (case (button s, addressTarget s) of
        (Some b, Some t) \<Rightarrow>
          emit ShowDisconnected
            (s\<lparr>button := Some (b\<lparr>
                   btn_textContent := label,
                   btn_classList :=
                     insert (lit ''ui-button--primary'') (btn_classList b)
                       - {lit ''ui-button--secondary''},
                   btn_click := insert HandleConnectClick (btn_click b - {HandleDisconnectClick}),
                   btn_connectedAddress := None\<rparr>),
               addressTarget := Some (t\<lparr>
                   tgt_textContent := lit ''Not connected'',
                   tgt_state := Some (lit ''disconnected'')\<rparr>)\<rparr>)
      | _ \<Rightarrow> s)"

text \<open>The default of the parameter \<open>label\<close>.\<close>

definition default_label :: jsstring where
  "default_label = lit ''Connect wallet''"

subsection \<open>The session endpoint\<close>

text \<open>
  An async function runs up to its first pending \<open>await\<close>, and goes on when the awaited
  promise settles. \<open>persistWallet\<close> is the part up to the fetch (\<open>persistWallet_begin\<close>,
  which says whether the call has returned or is suspended) and the part from the
  settlement on (\<open>persistWallet_resume\<close>); \<open>persistWallet\<close> itself is the call run with
  nothing else in between.
\<close>

datatype call_status = Returned | Awaiting

definition persistWallet_begin :: "jsstring option \<Rightarrow> wallet \<Rightarrow> call_status \<times> wallet" where
  "persistWallet_begin address s =
     (if saving s then (Returned, s)
      else (Awaiting, issue (POST_session address) (s\<lparr>saving := True\<rparr>)))"

definition persistWallet_resume :: "jsstring option \<Rightarrow> unit settled \<Rightarrow> wallet \<Rightarrow> wallet" where
  "persistWallet_resume address oc s =
     (let s1 = settle (POST_session address) oc s;
          s2 = (case oc of
                  Rejects \<Rightarrow> emit (Console Console_error ''Unable to persist wallet session'') s1
                | Resolves _ \<Rightarrow> s1)
      in s2\<lparr>saving := False\<rparr>)"

definition persistWallet :: "jsstring option \<Rightarrow> unit settled \<Rightarrow> wallet \<Rightarrow> wallet" where
  "persistWallet address oc s =
     (case persistWallet_begin address s of
        (Returned, s1) \<Rightarrow> s1
      | (Awaiting, s1) \<Rightarrow> persistWallet_resume address oc s1)"

definition clearWallet_begin :: "wallet \<Rightarrow> wallet" where
  "clearWallet_begin s = issue DELETE_session s"

definition clearWallet_resume :: "unit settled \<Rightarrow> wallet \<Rightarrow> wallet" where
  "clearWallet_resume oc s =
     (let s1 = settle DELETE_session oc s
      in case oc of
           Rejects \<Rightarrow> emit (Console Console_error ''Unable to clear wallet session'') s1
         | Resolves _ \<Rightarrow> s1)"

definition clearWallet :: "unit settled \<Rightarrow> wallet \<Rightarrow> wallet" where
  "clearWallet oc s = clearWallet_resume oc (clearWallet_begin s)"

subsection \<open>Handlers\<close>

text \<open>
  The body of the session endpoint's answer, \<open>{ ok, data?: { address } }\<close>; \<open>None\<close> is
  a member that is absent, or a body that is \<open>null\<close>.
\<close>

record session_data =
  data_address :: "jsstring option"

record session_body =
  body_ok :: bool
  body_data :: "session_data option"

text \<open>
  \<open>body?.ok && body.data?.address\<close>: the address when the whole expression is truthy (a
  non-empty string), \<open>None\<close> otherwise.
\<close>

definition body_address :: "session_body option \<Rightarrow> jsstring option" where
  "body_address body =
     (case body of
        None \<Rightarrow> None
      | Some b \<Rightarrow>
          if \<not> body_ok b then None
          else case body_data b of
                 None \<Rightarrow> None
               | Some d \<Rightarrow>
                   (case data_address d of
                      None \<Rightarrow> None
                    | Some a \<Rightarrow> if a = [] then None else Some a))"

definition hydrateFromServer_begin :: "wallet \<Rightarrow> wallet" where
  "hydrateFromServer_begin s = issue GET_session s"

text \<open>
  The parameter \<open>button\<close> of \<open>hydrateFromServer\<close> is the element \<open>init\<close> found with the
  selector \<open>renderConnectedState\<close> uses.
\<close>

definition hydrateFromServer_resume :: "session_body option settled \<Rightarrow> wallet \<Rightarrow> wallet" where
  "hydrateFromServer_resume oc s =
     (let s1 = settle GET_session oc s
      in case oc of
           Rejects \<Rightarrow>
             renderDisconnectedState default_label
               (emit (Console Console_warn ''Unable to hydrate wallet session'') s1)
         | Resolves body \<Rightarrow>
             (case body_address body of
                Some a \<Rightarrow>
                  let s2 = renderConnectedState (s1\<lparr>walletAddress := Some a\<rparr>)
                  in s2\<lparr>button :=
                          map_option (\<lambda>b. b\<lparr>btn_connectedAddress := Some (to_dataset (walletAddress s2))\<rparr>)
                            (button s2)\<rparr>
              | None \<Rightarrow> renderDisconnectedState default_label s1))"

definition hydrateFromServer :: "session_body option settled \<Rightarrow> wallet \<Rightarrow> wallet" where
  "hydrateFromServer oc s = hydrateFromServer_resume oc (hydrateFromServer_begin s)"

text \<open>
  What the collaborators of one connect click do: how each awaited call settles, and
  \<open>window.ethereum\<close> (\<open>None\<close>: no injected provider; \<open>Some r\<close>: there is one, and \<open>r\<close>
  says whether it has a \<open>request\<close> method). \<open>getWalletProvider\<close> resolves to \<open>True\<close>
  when it yields a provider and to \<open>False\<close> when it yields none. Constructing a
  \<open>BrowserProvider\<close> returns: \<open>init\<close> binds no handler when \<open>window.ethers\<close> is
  missing.
\<close>

record connect_env =
  openModal_settles :: "unit settled"
  getWalletProvider_settles :: "bool settled"
  window_ethereum :: "bool option"
  request_settles :: "unit settled"
  getSigner_settles :: "unit settled"
  getAddress_settles :: "jsstring settled"
  post_settles :: "unit settled"

text \<open>
  The \<open>try\<close> block of \<open>handleConnectClick\<close> up to the address, in three parts; each
  returns the exception it throws, if any, and the state it leaves.
\<close>

definition connect_modal :: "connect_env \<Rightarrow> wallet \<Rightarrow> error option \<times> wallet" where
  "connect_modal env s =
     (case modal s of
        None \<Rightarrow> (None, s)
      | Some m \<Rightarrow>
          if \<not> has_openModal m then (None, s)
          else case openModal_settles env of
                 Rejects \<Rightarrow> (Some Rejection, s)
               | Resolves _ \<Rightarrow>
                   if \<not> has_getWalletProvider m then (None, s)
                   else case getWalletProvider_settles env of
                          Rejects \<Rightarrow> (Some Rejection, s)
                        | Resolves True \<Rightarrow> (None, s\<lparr>provider := Some (BrowserProvider ModalProvider)\<rparr>)
                        | Resolves False \<Rightarrow> (None, s))"

definition connect_injected :: "connect_env \<Rightarrow> wallet \<Rightarrow> error option \<times> wallet" where
  "connect_injected env s =
     (if provider s \<noteq> None then (None, s)
      else case window_ethereum env of
             None \<Rightarrow> (Some NoProvider, s)
           | Some has_request \<Rightarrow>
               if has_request \<and> request_settles env = Rejects then (Some Rejection, s)
               else (None, s\<lparr>provider := Some (BrowserProvider InjectedProvider)\<rparr>))"

definition connect_signer :: "connect_env \<Rightarrow> wallet \<Rightarrow> error option \<times> wallet" where
  "connect_signer env s =
     (case getSigner_settles env of
        Rejects \<Rightarrow> (Some Rejection, s)
      | Resolves _ \<Rightarrow>
          let s1 = s\<lparr>signer := Some Signer\<rparr>
          in case getAddress_settles env of
               Rejects \<Rightarrow> (Some Rejection, s1)
             | Resolves a \<Rightarrow> (None, s1\<lparr>walletAddress := Some a\<rparr>))"

definition and_then :: "error option \<times> wallet \<Rightarrow> (wallet \<Rightarrow> error option \<times> wallet) \<Rightarrow> error option \<times> wallet" where
  "and_then r f = (case r of (None, s) \<Rightarrow> f s | (Some e, s) \<Rightarrow> (Some e, s))"

definition connect_acquire :: "connect_env \<Rightarrow> wallet \<Rightarrow> error option \<times> wallet" where
  "connect_acquire env s =
     and_then (and_then (connect_modal env s) (connect_injected env)) (connect_signer env)"

definition handleConnectClick :: "connect_env \<Rightarrow> wallet \<Rightarrow> wallet" where
  "handleConnectClick env s =
     (case connect_acquire env s of
        (None, s1) \<Rightarrow>
          renderConnectedState (persistWallet (walletAddress s1) (post_settles env) s1)
      | (Some e, s1) \<Rightarrow>
          renderDisconnectedState (lit ''Connect wallet'')
            (emit (Console Console_error ''Wallet connect failed'') s1))"

definition handleDisconnectClick_begin :: "wallet \<Rightarrow> wallet" where
  "handleDisconnectClick_begin s =
     clearWallet_begin (s\<lparr>walletAddress := None, provider := None, signer := None\<rparr>)"

definition handleDisconnectClick_resume :: "unit settled \<Rightarrow> wallet \<Rightarrow> wallet" where
  "handleDisconnectClick_resume oc s =
     renderDisconnectedState default_label (clearWallet_resume oc s)"

definition handleDisconnectClick :: "unit settled \<Rightarrow> wallet \<Rightarrow> wallet" where
  "handleDisconnectClick oc s = handleDisconnectClick_resume oc (handleDisconnectClick_begin s)"

text \<open>
  \<open>handleAccountsChanged\<close>: \<open>accounts\<close> is a list of addresses, or nothing (\<open>None\<close>);
  the one settlement is that of the DELETE or of the POST, whichever the call makes.
\<close>

definition handleAccountsChanged :: "jsstring list option \<Rightarrow> unit settled \<Rightarrow> wallet \<Rightarrow> wallet" where
  "handleAccountsChanged accounts oc s =
     (case accounts of
        None \<Rightarrow> handleDisconnectClick oc s
      | Some [] \<Rightarrow> handleDisconnectClick oc s
      | Some (a # _) \<Rightarrow>
          renderConnectedState (persistWallet (Some a) oc (s\<lparr>walletAddress := Some a\<rparr>)))"

subsection \<open>The module on the event loop\<close>

text \<open>
  The handlers of the module run interleaved: while one is suspended at an \<open>await\<close>,
  another may start or go on. One step is a call of \<open>persistWallet\<close>, \<open>clearWallet\<close> or
  \<open>hydrateFromServer\<close> up to its fetch, the settlement of a request in flight with the
  rest of the call that awaits it, or any other code of the module. Rule \<open>other_code\<close>
  stands for all of that: \<open>saving\<close> is assigned in \<open>persistWallet\<close> only and \<open>fetch\<close>
  is called in these three functions only, so whatever else runs leaves both as they are.
  The module starts with \<open>saving\<close> false and nothing in flight.
\<close>

inductive step :: "wallet \<Rightarrow> wallet \<Rightarrow> bool" where
  persist_call: "step s (snd (persistWallet_begin a s))"
| persist_settles: "POST_session a \<in> set (inflight s) \<Longrightarrow> step s (persistWallet_resume a oc s)"
| clear_call: "step s (clearWallet_begin s)"
| clear_settles: "DELETE_session \<in> set (inflight s) \<Longrightarrow> step s (clearWallet_resume oc s)"
| hydrate_call: "step s (hydrateFromServer_begin s)"
| hydrate_settles: "GET_session \<in> set (inflight s) \<Longrightarrow> step s (hydrateFromServer_resume r s)"
| other_code: "saving s' = saving s \<Longrightarrow> inflight s' = inflight s \<Longrightarrow> step s s'"

inductive reachable :: "wallet \<Rightarrow> bool" where
  start: "\<not> saving s \<Longrightarrow> inflight s = [] \<Longrightarrow> reachable s"
| after: "reachable s \<Longrightarrow> step s s' \<Longrightarrow> reachable s'"

fun is_post :: "request \<Rightarrow> bool" where
  "is_post (POST_session a) = True"
| "is_post r = False"

definition posts_in_flight :: "wallet \<Rightarrow> nat" where
  "posts_in_flight s = length (filter is_post (inflight s))"

text \<open>The guard and the network agree: \<open>saving\<close> is set exactly while one POST is in flight.\<close>

definition guard_matches :: "wallet \<Rightarrow> bool" where
  "guard_matches s = (posts_in_flight s = (if saving s then 1 else 0))"

subsection \<open>Order of events in one connect flow\<close>

text \<open>
  Two readings of a trace. \<open>shown_after_confirmed_post confirmed es\<close>: every
  \<open>ShowConnected\<close> of \<open>es\<close> comes after a POST that was fulfilled (or \<open>confirmed\<close>
  holds at the start). \<open>shown_after_persist_returned pending es\<close>: no \<open>ShowConnected\<close>
  of \<open>es\<close> comes while a POST issued in \<open>es\<close> has not settled (or while \<open>pending\<close>
  holds from the start).
\<close>

fun shown_after_confirmed_post :: "bool \<Rightarrow> event list \<Rightarrow> bool" where
  "shown_after_confirmed_post confirmed [] = True"
| "shown_after_confirmed_post confirmed (ShowConnected # es) =
     (confirmed \<and> shown_after_confirmed_post confirmed es)"
| "shown_after_confirmed_post confirmed (Settle (POST_session a) True # es) =
     shown_after_confirmed_post True es"
| "shown_after_confirmed_post confirmed (e # es) = shown_after_confirmed_post confirmed es"

fun shown_after_persist_returned :: "bool \<Rightarrow> event list \<Rightarrow> bool" where
  "shown_after_persist_returned pending [] = True"
| "shown_after_persist_returned pending (ShowConnected # es) =
     (\<not> pending \<and> shown_after_persist_returned pending es)"
| "shown_after_persist_returned pending (Fetch (POST_session a) # es) =
     shown_after_persist_returned True es"
| "shown_after_persist_returned pending (Settle (POST_session a) ok # es) =
     shown_after_persist_returned False es"
| "shown_after_persist_returned pending (e # es) = shown_after_persist_returned pending es"

text \<open>The events of a \<open>persistWallet\<close> call that is not skipped.\<close>

definition persist_events :: "jsstring option \<Rightarrow> unit settled \<Rightarrow> event list" where
  "persist_events a oc =
     (case oc of
        Rejects \<Rightarrow> [Fetch (POST_session a), Settle (POST_session a) False,
                     Console Console_error ''Unable to persist wallet session'']
      | Resolves _ \<Rightarrow> [Fetch (POST_session a), Settle (POST_session a) True])"

text \<open>The events one connect click adds to the trace.\<close>

definition connect_events :: "connect_env \<Rightarrow> wallet \<Rightarrow> event list" where
  "connect_events env s = drop (length (trace s)) (trace (handleConnectClick env s))"

section \<open>MonitorStream (src/static/js/wallet-connect.js, the second script)\<close>

subsection \<open>Snapshots\<close>

text \<open>
  A position snapshot. The numeric members are values of a type \<open>'n\<close> that is left open:
  what \<open>Number\<close> and \<open>toLocaleString\<close> make of them is the platform's, and
  \<open>renderRow\<close> takes it as two parameters, \<open>fmt v\<close> for \<open>formatNum(v)\<close> and
  \<open>fmt_sum r u\<close> for \<open>formatNum(Number(r || 0) + Number(u || 0))\<close>.
\<close>

record 'n snapshot =
  run_id :: jsstring
  market :: jsstring
  status :: jsstring
  position_notional :: 'n
  entry_price :: 'n
  mark_price :: 'n
  unrealized_pnl :: 'n
  realized_pnl :: 'n
  timestamp :: jsstring

subsection \<open>The document\<close>

text \<open>
  A node of the document is an element, with its tag, its attributes and its child nodes,
  or a text. The id of an element is its attribute \<open>id\<close>, its classes are the words of
  its attribute \<open>class\<close>.
\<close>

type_synonym attrs = "(jsstring \<times> jsstring) list"

datatype node = Element jsstring attrs "node list" | Text jsstring

definition is_space :: "16 word \<Rightarrow> bool" where
  "is_space c = (c = 0x20 \<or> c = 0x09 \<or> c = 0x0A \<or> c = 0x0C \<or> c = 0x0D)"

fun split_spaces :: "jsstring \<Rightarrow> jsstring \<Rightarrow> jsstring list" where
  "split_spaces acc [] = (if acc = [] then [] else [rev acc])"
| "split_spaces acc (c # cs) =
     (if is_space c then (if acc = [] then [] else [rev acc]) @ split_spaces [] cs
      else split_spaces (c # acc) cs)"

definition has_id :: "jsstring \<Rightarrow> attrs \<Rightarrow> bool" where
  "has_id i as = (map_of as (lit ''id'') = Some i)"


definition classList :: "attrs \<Rightarrow> jsstring list" where
  "classList as = (case map_of as (lit ''class'') of None \<Rightarrow> [] | Some v \<Rightarrow> split_spaces [] v)"

definition is_cell_empty :: "attrs \<Rightarrow> bool" where
  "is_cell_empty as = (lit ''cell-empty'' \<in> set (classList as))"

text \<open>
  \<open>some_element P ns\<close>: some element among the nodes \<open>ns\<close> and their descendants satisfies
  \<open>P\<close>. With \<open>has_id i\<close> it says whether \<open>getElementById(i)\<close> finds an element there,
  with \<open>is_cell_empty\<close> whether \<open>querySelector('.cell-empty')\<close> does.
\<close>

fun some_element :: "(attrs \<Rightarrow> bool) \<Rightarrow> node list \<Rightarrow> bool" where
  "some_element P [] = False"
| "some_element P (Text t # ns) = some_element P ns"
| "some_element P (Element tag as cs # ns) = (P as \<or> some_element P cs \<or> some_element P ns)"

text \<open>
  \<open>existing.replaceWith(new)\<close>, \<open>existing\<close> the first element in document order that
  satisfies \<open>P\<close>, at whatever depth it is.
\<close>

fun replaceWith :: "(attrs \<Rightarrow> bool) \<Rightarrow> node \<Rightarrow> node list \<Rightarrow> node list" where
  "replaceWith P new [] = []"
| "replaceWith P new (Text t # ns) = Text t # replaceWith P new ns"
| "replaceWith P new (Element tag as cs # ns) =
     (if P as then new # ns
      else if some_element P cs then Element tag as (replaceWith P new cs) # ns
      else Element tag as cs # replaceWith P new ns)"

text \<open>
  \<open>empty.parentElement?.remove()\<close>, \<open>empty\<close> the first element in document order, among
  the nodes and their descendants, that satisfies \<open>P\<close>. There is no such element
  (\<open>NotFound\<close>); or it is one of the nodes themselves, so that its parent is the element
  that holds them (\<open>ParentIsRoot\<close>); or it lies deeper and its parent has been removed
  from among the nodes and their descendants (\<open>Removed\<close>, with what is left).
\<close>

datatype removal = NotFound | ParentIsRoot | Removed "node list"

fun keep_first :: "node \<Rightarrow> removal \<Rightarrow> removal" where
  "keep_first n (Removed ns) = Removed (n # ns)"
| "keep_first n r = r"

fun remove_parent_of_first :: "(attrs \<Rightarrow> bool) \<Rightarrow> node list \<Rightarrow> removal" where
  "remove_parent_of_first P [] = NotFound"
| "remove_parent_of_first P (Text t # ns) = keep_first (Text t) (remove_parent_of_first P ns)"
| "remove_parent_of_first P (Element tag as cs # ns) =
     (if P as then ParentIsRoot
      else case remove_parent_of_first P cs of
             ParentIsRoot \<Rightarrow> Removed ns
           | Removed cs' \<Rightarrow> Removed (Element tag as cs' # ns)
           | NotFound \<Rightarrow> keep_first (Element tag as cs) (remove_parent_of_first P ns))"


definition childNodes :: "node \<Rightarrow> node list" where
  "childNodes n = (case n of Element tag as cs \<Rightarrow> cs | Text t \<Rightarrow> [])"

subsection \<open>Rows\<close>

text \<open>
  The template literal that \<open>renderRow\<close> assigns to \<open>tr.innerHTML\<close>, with the values of
  the snapshot put in as they are: a line break, ten lines of six spaces and a cell, four
  spaces.
\<close>

definition line :: "jsstring \<Rightarrow> jsstring" where
  "line html = lit ''      '' @ html @ [0x0A]"

definition cell_num :: "jsstring \<Rightarrow> jsstring" where
  "cell_num html = lit ''<td class='' @ [0x22] @ lit ''cell-num'' @ [0x22] @ lit ''>'' @ html @ lit ''</td>''"

definition row_markup :: "('n \<Rightarrow> jsstring) \<Rightarrow> ('n \<Rightarrow> 'n \<Rightarrow> jsstring) \<Rightarrow> 'n snapshot \<Rightarrow> jsstring" where
  "row_markup fmt fmt_sum s =
     [0x0A]
     @ line (lit ''<td><code title='' @ [0x22] @ run_id s @ [0x22] @ lit ''>''
             @ slice2 0 6 (run_id s) @ ellipsis @ slice1 (- 4) (run_id s) @ lit ''</code></td>'')
     @ line (lit ''<td>'' @ market s @ lit ''</td>'')
     @ line (lit ''<td>'' @ status s @ lit ''</td>'')
     @ line (cell_num (fmt (position_notional s)))
     @ line (cell_num (fmt (entry_price s)))
     @ line (cell_num (fmt (mark_price s)))
     @ line (cell_num (fmt (unrealized_pnl s)))
     @ line (cell_num (fmt (realized_pnl s)))
     @ line (cell_num (lit ''<strong>'' @ fmt_sum (realized_pnl s) (unrealized_pnl s) @ lit ''</strong>''))
     @ line (lit ''<td>'' @ timestamp s @ lit ''</td>'')
     @ lit ''    ''"

text \<open>
  \<open>renderRow\<close>: a \<open>tr\<close> with the id \<open>run-\<close> and the run id, whose child nodes are what
  the HTML parser makes of the markup. The parser is the platform's; \<open>renderRow\<close> takes
  it as the parameter \<open>parse\<close>. Markup inside a value becomes elements of the row.
\<close>

definition renderRow ::
  "(jsstring \<Rightarrow> node list) \<Rightarrow> ('n \<Rightarrow> jsstring) \<Rightarrow> ('n \<Rightarrow> 'n \<Rightarrow> jsstring) \<Rightarrow> 'n snapshot \<Rightarrow> node" where
  "renderRow parse fmt fmt_sum s =
     Element (lit ''tr'') [(lit ''id'', lit ''run-'' @ run_id s)] (parse (row_markup fmt fmt_sum s))"

subsection \<open>The table\<close>

text \<open>
  The state of the monitoring script: the child nodes of the element \<open>monitor-rows\<close>
  (\<open>None\<close>: the document has no such element), every \<open>EventSource\<close> made so far, the
  delays of the pending timeouts (each is to call \<open>connectSSE\<close>), and the console. The
  table body holds the only elements of the page that have an id of the form \<open>run-...\<close>:
  \<open>document.getElementById\<close> finds an element in the table body or nothing.
\<close>

datatype source_state = Live | Closed

record monitor =
  tbody :: "node list option"
  sources :: "source_state list"
  timers :: "nat list"
  console :: "string list"

text \<open>
  \<open>upsertRow\<close>. When the first \<open>.cell-empty\<close> element is a child of the table body
  itself, its parent is the table body, which is removed from the document.
\<close>

definition upsertRow ::
  "(jsstring \<Rightarrow> node list) \<Rightarrow> ('n \<Rightarrow> jsstring) \<Rightarrow> ('n \<Rightarrow> 'n \<Rightarrow> jsstring) \<Rightarrow> 'n snapshot
     \<Rightarrow> monitor \<Rightarrow> monitor" where
  "upsertRow parse fmt fmt_sum snap s =
     (case tbody s of
        None \<Rightarrow> s
      | Some rows \<Rightarrow>
          let i = lit ''run-'' @ run_id snap; new = renderRow parse fmt fmt_sum snap
          in if some_element (has_id i) rows then s\<lparr>tbody := Some (replaceWith (has_id i) new rows)\<rparr>
             else case remove_parent_of_first is_cell_empty rows of
                    NotFound \<Rightarrow> s\<lparr>tbody := Some (rows @ [new])\<rparr>
                  | Removed rows' \<Rightarrow> s\<lparr>tbody := Some (rows' @ [new])\<rparr>
                  | ParentIsRoot \<Rightarrow> s\<lparr>tbody := None\<rparr>)"






subsection \<open>The stream\<close>

text \<open>
  What \<open>JSON.parse(evt.data)\<close> does: it throws, or returns the payload
  \<open>{ ok, data?: snapshot }\<close> (\<open>None\<close>: \<open>null\<close>).
\<close>

record 'n envelope =
  payload_ok :: bool
  payload_data :: "'n snapshot option"

datatype 'n parsed = Throws error | Parsed "'n envelope option"

text \<open>A message that carries a snapshot: \<open>{ ok: true, data: snap }\<close>.\<close>

definition snapshot_message :: "'n snapshot \<Rightarrow> 'n parsed" where
  "snapshot_message snap = Parsed (Some \<lparr>payload_ok = True, payload_data = Some snap\<rparr>)"

definition onmessage ::
  "(jsstring \<Rightarrow> node list) \<Rightarrow> ('n \<Rightarrow> jsstring) \<Rightarrow> ('n \<Rightarrow> 'n \<Rightarrow> jsstring) \<Rightarrow> 'n parsed
     \<Rightarrow> monitor \<Rightarrow> monitor" where
  "onmessage parse fmt fmt_sum evt s =
     (case evt of
        Throws e \<Rightarrow> s\<lparr>console := console s @ [''SSE parse error'']\<rparr>
      | Parsed None \<Rightarrow> s
      | Parsed (Some payload) \<Rightarrow>
          if \<not> payload_ok payload then s
          else case payload_data payload of
                 None \<Rightarrow> s
               | Some d \<Rightarrow> upsertRow parse fmt fmt_sum d s)"

text \<open>
  \<open>connectSSE\<close>; \<open>constructed\<close> says whether \<open>new EventSource\<close> returns (it throws
  otherwise). \<open>onerror i\<close> is the error handler of the \<open>i\<close>-th \<open>EventSource\<close> that was
  made: it closes that one and sets one timeout of 1500 ms. \<open>timeout_fires\<close> is the
  oldest pending timeout calling \<open>connectSSE\<close>.
\<close>

definition connectSSE :: "bool \<Rightarrow> monitor \<Rightarrow> monitor" where
  "connectSSE constructed s =
     (if constructed then s\<lparr>sources := sources s @ [Live]\<rparr>
      else s\<lparr>console := console s @ [''SSE error'']\<rparr>)"

definition onerror :: "nat \<Rightarrow> monitor \<Rightarrow> monitor" where
  "onerror i s = s\<lparr>sources := (sources s)[i := Closed], timers := timers s @ [1500]\<rparr>"

definition timeout_fires :: "bool \<Rightarrow> monitor \<Rightarrow> monitor" where
  "timeout_fires constructed s =
     (case timers s of
        [] \<Rightarrow> s
      | d # ds \<Rightarrow> connectSSE constructed (s\<lparr>timers := ds\<rparr>))"

text \<open>
  \<open>n\<close> rounds of: the newest \<open>EventSource\<close> has an error, then the timeout fires and
  \<open>new EventSource\<close> returns.
\<close>

fun error_rounds :: "nat \<Rightarrow> monitor \<Rightarrow> monitor" where
  "error_rounds 0 s = s"
| "error_rounds (Suc n) s =
     error_rounds n (timeout_fires True (onerror (length (sources s) - 1) s))"

section \<open>Concrete inputs\<close>

text \<open>A drawer with two links, closed, the focus on a toggle button (node 0).\<close>

definition link :: "nat \<Rightarrow> element" where
  "link n =
     \<lparr>node = n, tagName = lit ''a'', attributes = [(lit ''href'', lit ''/'')],
      offsetParent_null = False\<rparr>"

definition drawer_closed :: nav where
  "drawer_closed =
     \<lparr>drawer_hidden = True, drawer_descendants = [link 1, link 2], aria_expanded = [None],
      body_is_nav_open = False, activeElement = Some 0, lastActiveElement = None,
      keydown_listener = False, click_listener = False\<rparr>"

text \<open>The same drawer as \<open>openDrawer\<close> leaves it.\<close>

definition drawer_opened :: nav where
  "drawer_opened =
     \<lparr>drawer_hidden = False, drawer_descendants = [link 1, link 2],
      aria_expanded = [Some (lit ''true'')],
      body_is_nav_open = True, activeElement = Some 0, lastActiveElement = Some 0,
      keydown_listener = False, click_listener = False\<rparr>"

text \<open>The wallet widget as the page is loaded, and an address.\<close>

definition button0 :: button where
  "button0 =
     \<lparr>btn_textContent = lit ''Connect wallet'', btn_classList = {lit ''ui-button--primary''},
      btn_click = {HandleConnectClick}, btn_connectedAddress = None\<rparr>"

definition target0 :: address_target where
  "target0 = \<lparr>tgt_textContent = lit ''Not connected'', tgt_state = None\<rparr>"

definition wallet0 :: wallet where
  "wallet0 =
     \<lparr>modal = None, provider = None, signer = None, walletAddress = None, saving = False,
      button = Some button0, addressTarget = Some target0, inflight = [], trace = []\<rparr>"

definition address0 :: jsstring where
  "address0 = lit ''0xABCDEF1234567890''"

text \<open>
  A connect click with an injected provider where every wallet call succeeds and the POST
  is rejected.
\<close>

definition env_post_fails :: connect_env where
  "env_post_fails =
     \<lparr>openModal_settles = Resolves (), getWalletProvider_settles = Resolves False,
      window_ethereum = Some True, request_settles = Resolves (), getSigner_settles = Resolves (),
      getAddress_settles = Resolves address0, post_settles = Rejects\<rparr>"

text \<open>The widget while a persist is in progress.\<close>

definition wallet_persisting :: wallet where
  "wallet_persisting = snd (persistWallet_begin (Some address0) wallet0)"

text \<open>The widget after hydration with \<open>{ok: true, data: {address: "0xABCDEF1234567890"}}\<close>.\<close>

definition body0 :: session_body where
  "body0 = \<lparr>body_ok = True, body_data = Some \<lparr>data_address = Some address0\<rparr>\<rparr>"

definition wallet_connected :: wallet where
  "wallet_connected = hydrateFromServer (Resolves (Some body0)) wallet0"

subsection \<open>A parser for nested markup\<close>

text \<open>
  A parser for markup that is properly nested: start tags with attributes (quoted or
  not), end tags and text. It stands for the HTML parser in the concrete inputs below,
  whose markup is of that kind; the theorems hold for every parser.
\<close>

datatype token = StartTag jsstring attrs | EndTag jsstring | Chars jsstring

text \<open>
  The tokenizer reads the code units one by one. Its states: in text; in the name of a tag
  (\<open>True\<close>: an end tag); in a tag, between attributes; in the name of an attribute; after
  the \<open>=\<close> of an attribute; in a quoted value; in an unquoted value. Names of tags and
  attributes are put in lower case; the lists it collects are kept in reverse.
\<close>

datatype lex_state =
    InText jsstring
  | InTagName bool jsstring
  | InTag bool jsstring attrs
  | InAttrName bool jsstring attrs jsstring
  | AfterEquals bool jsstring attrs jsstring
  | InQuoted bool jsstring attrs jsstring "16 word" jsstring
  | InUnquoted bool jsstring attrs jsstring jsstring

definition to_lower :: "16 word \<Rightarrow> 16 word" where
  "to_lower c = (if 0x41 \<le> c \<and> c \<le> 0x5A then c + 0x20 else c)"

definition text_token :: "jsstring \<Rightarrow> token list" where
  "text_token acc = (if acc = [] then [] else [Chars (rev acc)])"

definition tag_token :: "bool \<Rightarrow> jsstring \<Rightarrow> attrs \<Rightarrow> token" where
  "tag_token closing name as = (if closing then EndTag (rev name) else StartTag (rev name) (rev as))"

fun lex :: "lex_state \<Rightarrow> jsstring \<Rightarrow> token list" where
  "lex (InText acc) [] = text_token acc"
| "lex st [] = []"
| "lex (InText acc) (c # cs) =
     (if c = 0x3C then text_token acc @ lex (InTagName False []) cs
      else lex (InText (c # acc)) cs)"
| "lex (InTagName closing name) (c # cs) =
     (if c = 0x2F \<and> name = [] then lex (InTagName True []) cs
      else if c = 0x3E then tag_token closing name [] # lex (InText []) cs
      else if is_space c then lex (InTag closing name []) cs
      else lex (InTagName closing (to_lower c # name)) cs)"
| "lex (InTag closing name as) (c # cs) =
     (if c = 0x3E then tag_token closing name as # lex (InText []) cs
      else if is_space c \<or> c = 0x2F then lex (InTag closing name as) cs
      else lex (InAttrName closing name as [to_lower c]) cs)"
| "lex (InAttrName closing name as an) (c # cs) =
     (if c = 0x3D then lex (AfterEquals closing name as an) cs
      else if c = 0x3E then tag_token closing name ((rev an, []) # as) # lex (InText []) cs
      else if is_space c then lex (InTag closing name ((rev an, []) # as)) cs
      else lex (InAttrName closing name as (to_lower c # an)) cs)"
| "lex (AfterEquals closing name as an) (c # cs) =
     (if c = 0x22 \<or> c = 0x27 then lex (InQuoted closing name as an c []) cs
      else if c = 0x3E then tag_token closing name ((rev an, []) # as) # lex (InText []) cs
      else if is_space c then lex (AfterEquals closing name as an) cs
      else lex (InUnquoted closing name as an [c]) cs)"
| "lex (InQuoted closing name as an q v) (c # cs) =
     (if c = q then lex (InTag closing name ((rev an, rev v) # as)) cs
      else lex (InQuoted closing name as an q (c # v)) cs)"
| "lex (InUnquoted closing name as an v) (c # cs) =
     (if c = 0x3E then tag_token closing name ((rev an, rev v) # as) # lex (InText []) cs
      else if is_space c then lex (InTag closing name ((rev an, rev v) # as)) cs
      else lex (InUnquoted closing name as an (c # v)) cs)"

text \<open>
  The tree builder keeps the open elements, innermost first, each with the child nodes it
  has so far (in reverse), and the finished nodes of the top level (in reverse). An end
  tag closes the innermost open element when the names agree and is ignored otherwise;
  what is still open at the end is closed.
\<close>

type_synonym open_element = "jsstring \<times> attrs \<times> node list"

definition add_node :: "node \<Rightarrow> open_element list \<times> node list \<Rightarrow> open_element list \<times> node list" where
  "add_node n st =
     (case st of
        ([], done) \<Rightarrow> ([], n # done)
      | ((tag, as, cs) # stack, done) \<Rightarrow> ((tag, as, n # cs) # stack, done))"

definition close_top :: "open_element list \<times> node list \<Rightarrow> open_element list \<times> node list" where
  "close_top st =
     (case st of
        ([], done) \<Rightarrow> ([], done)
      | ((tag, as, cs) # stack, done) \<Rightarrow> add_node (Element tag as (rev cs)) (stack, done))"

fun build :: "open_element list \<times> node list \<Rightarrow> token list \<Rightarrow> open_element list \<times> node list" where
  "build st [] = st"
| "build st (Chars t # ts) = build (add_node (Text t) st) ts"
| "build st (StartTag tag as # ts) = build ((tag, as, []) # fst st, snd st) ts"
| "build st (EndTag tag # ts) =
     (case fst st of
        [] \<Rightarrow> build st ts
      | (tag', as, cs) # stack \<Rightarrow> if tag' = tag then build (close_top st) ts else build st ts)"

fun close_all :: "nat \<Rightarrow> open_element list \<times> node list \<Rightarrow> node list" where
  "close_all 0 st = rev (snd st)"
| "close_all (Suc k) st = close_all k (close_top st)"

definition parse_nested :: "jsstring \<Rightarrow> node list" where
  "parse_nested html =
     (let st = build ([], []) (lex (InText []) html) in close_all (length (fst st)) st)"

subsection \<open>Tables and snapshots\<close>

text \<open>
  Numbers that arrive as strings, with a format that writes them as they are and a sum as
  \<open>r+u\<close>; two snapshots of one run; a table that holds the empty-state row only; a
  snapshot with an element that has an id in its market, and one with an element of class
  \<open>cell-empty\<close> in its status.
\<close>

definition fmt0 :: "jsstring \<Rightarrow> jsstring" where
  "fmt0 v = v"

definition fmt_sum0 :: "jsstring \<Rightarrow> jsstring \<Rightarrow> jsstring" where
  "fmt_sum0 r u = r @ lit ''+'' @ u"

definition snap_a :: "jsstring snapshot" where
  "snap_a =
     \<lparr>run_id = lit ''abcdef123456'', market = lit ''ETH'', status = lit ''open'',
      position_notional = lit ''3'', entry_price = lit ''2'', mark_price = lit ''2'',
      unrealized_pnl = lit ''0'', realized_pnl = lit ''1'', timestamp = lit ''t1''\<rparr>"


definition empty_row :: node where
  "empty_row =
     Element (lit ''tr'') []
       [Element (lit ''td'') [(lit ''class'', lit ''cell-empty'')] [Text (lit ''No runs yet'')]]"

definition monitor0 :: monitor where
  "monitor0 = \<lparr>tbody = Some [empty_row], sources = [], timers = [], console = []\<rparr>"


definition snap_class :: "jsstring snapshot" where
  "snap_class =
     \<lparr>run_id = lit ''aaaaaaaaaaaa'', market = lit ''ETH'',
      status = lit ''<i class=cell-empty>x</i>'',
      position_notional = lit ''3'', entry_price = lit ''2'', mark_price = lit ''2'',
      unrealized_pnl = lit ''0'', realized_pnl = lit ''1'', timestamp = lit ''t0''\<rparr>"

text \<open>
  The child nodes of a rendered row, written as nodes: \<open>cells_of s m t\<close> has the nodes
  \<open>m\<close> in the market cell and the nodes \<open>t\<close> in the status cell. \<open>cells_per_row\<close>
  counts the cells of each row.
\<close>

definition indent :: node where
  "indent = Text ([0x0A] @ lit ''      '')"

definition num_cell :: "node list \<Rightarrow> node" where
  "num_cell cs = Element (lit ''td'') [(lit ''class'', lit ''cell-num'')] cs"

definition cells_of :: "jsstring snapshot \<Rightarrow> node list \<Rightarrow> node list \<Rightarrow> node list" where
  "cells_of s market_cell status_cell =
     [ indent,
       Element (lit ''td'') []
         [Element (lit ''code'') [(lit ''title'', run_id s)]
            [Text (slice2 0 6 (run_id s) @ ellipsis @ slice1 (- 4) (run_id s))]],
       indent, Element (lit ''td'') [] market_cell,
       indent, Element (lit ''td'') [] status_cell,
       indent, num_cell [Text (position_notional s)],
       indent, num_cell [Text (entry_price s)],
       indent, num_cell [Text (mark_price s)],
       indent, num_cell [Text (unrealized_pnl s)],
       indent, num_cell [Text (realized_pnl s)],
       indent, num_cell [Element (lit ''strong'') [] [Text (realized_pnl s @ lit ''+'' @ unrealized_pnl s)]],
       indent, Element (lit ''td'') [] [Text (timestamp s)],
       Text ([0x0A] @ lit ''    '') ]"

definition is_td :: "node \<Rightarrow> bool" where
  "is_td n = (case n of Element tag as cs \<Rightarrow> tag = lit ''td'' | Text t \<Rightarrow> False)"

definition cells_per_row :: "node list \<Rightarrow> nat list" where
  "cells_per_row rows = map (\<lambda>r. length (filter is_td (childNodes r))) rows"

section \<open>Properties of NavDrawer\<close>

text \<open>
  \<open>getFocusable\<close> throws whatever the drawer holds: the selector list has
  \<open>input[type!='hidden']\<close> in it.
\<close>

lemma getFocusable_throws: "getFocusable s = Inl SyntaxError"
  by (simp add: getFocusable_def querySelectorAll_def focusableSelector_def)

lemma openDrawer_hidden: "drawer_hidden (snd (openDrawer s)) = False"
  by (simp add: openDrawer_def getFocusable_throws setAria_def Let_def)

lemma closeDrawer_hidden: "drawer_hidden (closeDrawer s) = True"
  by (simp add: closeDrawer_def setAria_def focus_def Let_def split: option.splits)

lemma run_call_hidden: "drawer_hidden (run_call s c) = (c = CloseDrawer)"
  by (cases c) (simp_all add: openDrawer_hidden closeDrawer_hidden)

lemma run_calls_snoc: "run_calls (cs @ [c]) s = run_call (run_calls cs s) c"
  by (simp add: run_calls_def)

lemma openDrawer_when_open: "\<not> drawer_hidden s \<Longrightarrow> openDrawer s = (None, s)"
  by (simp add: openDrawer_def)

lemma closeDrawer_when_closed: "drawer_hidden s \<Longrightarrow> closeDrawer s = s"
  by (simp add: closeDrawer_def)

text \<open>
  C7. After any non-empty sequence of \<open>openDrawer\<close> and \<open>closeDrawer\<close> calls the drawer
  is hidden exactly when the last call was \<open>closeDrawer\<close>. \<open>openDrawer\<close> on an open
  drawer returns at once and changes nothing, and so does \<open>closeDrawer\<close> on a closed one;
  calling either twice leaves the state the first call left.
\<close>

theorem drawer_visible_state_follows_last_call:
  "(cs \<noteq> [] \<longrightarrow> drawer_hidden (run_calls cs s) = (last cs = CloseDrawer))
   \<and> (\<not> drawer_hidden s \<longrightarrow> openDrawer s = (None, s))
   \<and> (drawer_hidden s \<longrightarrow> closeDrawer s = s)
   \<and> snd (openDrawer (snd (openDrawer s))) = snd (openDrawer s)
   \<and> closeDrawer (closeDrawer s) = closeDrawer s"
proof -
  have last_call: "cs \<noteq> [] \<longrightarrow> drawer_hidden (run_calls cs s) = (last cs = CloseDrawer)"
  proof (cases cs rule: rev_cases)
    case Nil
    then show ?thesis by simp
  next
    case (snoc ds c)
    then show ?thesis by (simp add: run_calls_snoc run_call_hidden)
  qed
  have open_twice: "snd (openDrawer (snd (openDrawer s))) = snd (openDrawer s)"
    using openDrawer_when_open [of "snd (openDrawer s)"] by (simp add: openDrawer_hidden)
  have close_twice: "closeDrawer (closeDrawer s) = closeDrawer s"
    using closeDrawer_when_closed [of "closeDrawer s"] by (simp add: closeDrawer_hidden)
  from last_call open_twice close_twice show ?thesis
    by (simp add: openDrawer_when_open closeDrawer_when_closed)
qed

theorem drawer_visible_state_witness:
  "[OpenDrawer, CloseDrawer, CloseDrawer, OpenDrawer] \<noteq> []
   \<and> drawer_hidden (run_calls [OpenDrawer, CloseDrawer, CloseDrawer, OpenDrawer] drawer_closed) = False
   \<and> \<not> drawer_hidden drawer_opened
   \<and> openDrawer drawer_opened = (None, drawer_opened)
   \<and> drawer_hidden drawer_closed
   \<and> closeDrawer drawer_closed = drawer_closed"
  using drawer_visible_state_follows_last_call
          [of "[OpenDrawer, CloseDrawer, CloseDrawer, OpenDrawer]" drawer_closed]
        drawer_visible_state_follows_last_call [of "[]" drawer_opened]
  by (simp add: drawer_closed_def drawer_opened_def)

text \<open>
  The selector matching is not what fails: a list of valid selectors finds the two links.
  And the cycling that \<open>handleKeydown\<close> would do on the list of \<open>getFocusable\<close> is
  right: it moves the focus to an element of the list or leaves it where it is, and when it
  has called \<open>preventDefault\<close> on a list that is not empty, the focus is on an element of
  the list.
\<close>

lemma querySelectorAll_links:
  "querySelectorAll [[Tag (lit ''a''), Attr (HasAttr (lit ''href''))]] [link 1, link 2]
     = Inr [link 1, link 2]"
  by (simp add: querySelectorAll_def matches_sel_def link_def lit_def)

lemma trap_focus_moves_within:
  "activeElement (snd (trap_focus focusable event s)) = activeElement s
   \<or> activeElement (snd (trap_focus focusable event s)) \<in> Some ` node ` set focusable"
  by (auto simp: trap_focus_def focus_def Let_def)

lemma trap_focus_prevented_within:
  "focusable \<noteq> [] \<Longrightarrow> fst (trap_focus focusable event s) \<Longrightarrow>
     activeElement (snd (trap_focus focusable event s)) \<in> Some ` node ` set focusable"
  by (auto simp: trap_focus_def focus_def Let_def split: if_splits)

text \<open>
  C6. The focus trap is meant to keep the focus within the drawer's focusable elements on
  Tab and Shift+Tab. On the drawer with two links: \<open>openDrawer\<close> shows the drawer and then
  throws in \<open>getFocusable\<close>, before it installs \<open>handleKeydown\<close>; and
  \<open>handleKeydown\<close>, called for a Tab with the focus on the last link (node 2), throws
  too: it neither calls \<open>preventDefault\<close> nor moves the focus to the first link (node 1).
\<close>

theorem focus_trap_not_installed:
  "openDrawer drawer_closed = (Some SyntaxError, drawer_opened)
   \<and> keydown_listener drawer_opened = False
   \<and> handleKeydown \<lparr>key = lit ''Tab'', shiftKey = False\<rparr> (drawer_opened\<lparr>activeElement := Some 2\<rparr>)
       = (Some SyntaxError, False, drawer_opened\<lparr>activeElement := Some 2\<rparr>)"
  by (simp add: openDrawer_def handleKeydown_def getFocusable_throws setAria_def
        drawer_closed_def drawer_opened_def lit_def)

section \<open>Properties of WalletConnect\<close>

subsection \<open>What each call adds to the trace and what it leaves alone\<close>

lemmas wallet_defs = emit_def issue_def settle_def

lemma renderConnectedState_frame:
  "saving (renderConnectedState s) = saving s" "inflight (renderConnectedState s) = inflight s"
  "walletAddress (renderConnectedState s) = walletAddress s"
  by (simp_all add: renderConnectedState_def emit_def split: option.splits)

lemma renderDisconnectedState_frame:
  "saving (renderDisconnectedState l s) = saving s" "inflight (renderDisconnectedState l s) = inflight s"
  "walletAddress (renderDisconnectedState l s) = walletAddress s"
  "provider (renderDisconnectedState l s) = provider s"
  "signer (renderDisconnectedState l s) = signer s"
  by (simp_all add: renderDisconnectedState_def emit_def split: option.splits)

lemma trace_renderConnectedState:
  "trace (renderConnectedState s) =
     trace s @ (if button s \<noteq> None \<and> addressTarget s \<noteq> None then [ShowConnected] else [])"
  by (simp add: renderConnectedState_def emit_def split: option.splits)

lemma trace_renderDisconnectedState:
  "trace (renderDisconnectedState l s) =
     trace s @ (if button s \<noteq> None \<and> addressTarget s \<noteq> None then [ShowDisconnected] else [])"
  by (simp add: renderDisconnectedState_def emit_def split: option.splits)

lemma trace_persistWallet:
  "trace (persistWallet a oc s) = trace s @ (if saving s then [] else persist_events a oc)"
  by (simp add: persistWallet_def persistWallet_begin_def persistWallet_resume_def persist_events_def
        wallet_defs split: settled.splits)

lemma persistWallet_dom:
  "button (persistWallet a oc s) = button s" "addressTarget (persistWallet a oc s) = addressTarget s"
  by (simp_all add: persistWallet_def persistWallet_begin_def persistWallet_resume_def
        wallet_defs split: settled.splits)

lemma connect_modal_frame:
  "trace (snd (connect_modal env s)) = trace s \<and> saving (snd (connect_modal env s)) = saving s
   \<and> inflight (snd (connect_modal env s)) = inflight s \<and> button (snd (connect_modal env s)) = button s
   \<and> addressTarget (snd (connect_modal env s)) = addressTarget s"
  by (simp add: connect_modal_def split: option.splits settled.splits bool.splits)

lemma connect_injected_frame:
  "trace (snd (connect_injected env s)) = trace s \<and> saving (snd (connect_injected env s)) = saving s
   \<and> inflight (snd (connect_injected env s)) = inflight s \<and> button (snd (connect_injected env s)) = button s
   \<and> addressTarget (snd (connect_injected env s)) = addressTarget s"
  by (simp add: connect_injected_def split: option.splits settled.splits bool.splits)

lemma connect_signer_frame:
  "trace (snd (connect_signer env s)) = trace s \<and> saving (snd (connect_signer env s)) = saving s
   \<and> inflight (snd (connect_signer env s)) = inflight s \<and> button (snd (connect_signer env s)) = button s
   \<and> addressTarget (snd (connect_signer env s)) = addressTarget s"
  by (simp add: connect_signer_def Let_def split: option.splits settled.splits bool.splits)

lemma and_then_frame:
  assumes "\<And>s. f (snd (g s)) = f s" "f (snd r) = f s0"
  shows "f (snd (and_then r g)) = f s0"
  using assms by (cases r) (simp add: and_then_def split: option.splits)

lemma connect_acquire_frame:
  "trace (snd (connect_acquire env s)) = trace s" "saving (snd (connect_acquire env s)) = saving s"
  "inflight (snd (connect_acquire env s)) = inflight s" "button (snd (connect_acquire env s)) = button s"
  "addressTarget (snd (connect_acquire env s)) = addressTarget s"
  unfolding connect_acquire_def
  by (intro and_then_frame; simp add: connect_modal_frame connect_injected_frame connect_signer_frame)+

lemma connect_events_eq:
  "connect_events env s =
     (case connect_acquire env s of
        (None, s1) \<Rightarrow>
          (if saving s then [] else persist_events (walletAddress s1) (post_settles env))
          @ (if button s \<noteq> None \<and> addressTarget s \<noteq> None then [ShowConnected] else [])
      | (Some e, s1) \<Rightarrow>
          Console Console_error ''Wallet connect failed''
          # (if button s \<noteq> None \<and> addressTarget s \<noteq> None then [ShowDisconnected] else []))"
proof (cases "connect_acquire env s")
  case (Pair e s1)
  then have fr: "trace s1 = trace s" "saving s1 = saving s" "button s1 = button s"
      "addressTarget s1 = addressTarget s"
    using connect_acquire_frame [of env s] by simp_all
  show ?thesis
    by (cases e)
       (simp_all add: Pair connect_events_def handleConnectClick_def fr trace_renderConnectedState
          trace_renderDisconnectedState trace_persistWallet persistWallet_dom emit_def)
qed

lemma trace_handleConnectClick: "trace (handleConnectClick env s) = trace s @ connect_events env s"
proof (cases "connect_acquire env s")
  case (Pair e s1)
  then have fr: "trace s1 = trace s"
    using connect_acquire_frame [of env s] by simp
  show ?thesis
    by (cases e)
       (simp_all add: Pair connect_events_def handleConnectClick_def fr trace_renderConnectedState
          trace_renderDisconnectedState trace_persistWallet persistWallet_dom emit_def)
qed

subsection \<open>The connect flow\<close>

text \<open>
  C1, as amended. The events of a connect click extend the trace, and they are, in this
  order: when provider, signer and address were obtained, first the POST of that address
  issued and settled, with a console line if it was rejected, or no request at all if a
  persist was in progress (\<open>saving\<close> set) when \<open>persistWallet\<close> was called, and only then
  the painting of the connected state (if both elements exist), with nothing after it;
  otherwise a console line and the painting of the disconnected state. So the connected
  state is painted only after \<open>persistWallet\<close> has returned, never while a POST of the
  click is unsettled, and exactly when provider, signer and address were obtained; the
  click leaves \<open>saving\<close> as it found it.
\<close>

theorem connected_shown_after_persist_returns:
  "trace (handleConnectClick env s) = trace s @ connect_events env s
   \<and> connect_events env s =
       (case connect_acquire env s of
          (None, s1) \<Rightarrow>
            (if saving s then []
             else [Fetch (POST_session (walletAddress s1)),
                   Settle (POST_session (walletAddress s1)) (post_settles env \<noteq> Rejects)]
                  @ (if post_settles env = Rejects
                     then [Console Console_error ''Unable to persist wallet session''] else []))
            @ (if button s \<noteq> None \<and> addressTarget s \<noteq> None then [ShowConnected] else [])
        | (Some e, s1) \<Rightarrow>
            Console Console_error ''Wallet connect failed''
            # (if button s \<noteq> None \<and> addressTarget s \<noteq> None then [ShowDisconnected] else []))
   \<and> shown_after_persist_returned False (connect_events env s)
   \<and> (ShowConnected \<in> set (connect_events env s)
        \<longleftrightarrow> fst (connect_acquire env s) = None \<and> button s \<noteq> None \<and> addressTarget s \<noteq> None)
   \<and> saving (handleConnectClick env s) = saving s"
proof -
  obtain e s1 where a: "connect_acquire env s = (e, s1)" by (cases "connect_acquire env s")
  then have fr: "saving s1 = saving s"
    using connect_acquire_frame(2) [of env s] by simp
  have sv: "saving (handleConnectClick env s) = saving s"
    by (cases e)
       (simp_all add: a fr handleConnectClick_def renderConnectedState_frame
          renderDisconnectedState_frame emit_def persistWallet_def persistWallet_begin_def
          persistWallet_resume_def Let_def wallet_defs split: settled.splits)
  have ev: "connect_events env s =
       (case connect_acquire env s of
          (None, s1) \<Rightarrow>
            (if saving s then []
             else [Fetch (POST_session (walletAddress s1)),
                   Settle (POST_session (walletAddress s1)) (post_settles env \<noteq> Rejects)]
                  @ (if post_settles env = Rejects
                     then [Console Console_error ''Unable to persist wallet session''] else []))
            @ (if button s \<noteq> None \<and> addressTarget s \<noteq> None then [ShowConnected] else [])
        | (Some e, s1) \<Rightarrow>
            Console Console_error ''Wallet connect failed''
            # (if button s \<noteq> None \<and> addressTarget s \<noteq> None then [ShowDisconnected] else []))"
    by (cases e; cases "post_settles env") (simp_all add: a connect_events_eq persist_events_def)
  have rest: "shown_after_persist_returned False (connect_events env s)
      \<and> (ShowConnected \<in> set (connect_events env s)
        \<longleftrightarrow> fst (connect_acquire env s) = None \<and> button s \<noteq> None \<and> addressTarget s \<noteq> None)"
    by (cases e; cases "post_settles env")
       (auto simp: a connect_events_eq persist_events_def)
  from sv ev rest show ?thesis
    by (simp only: trace_handleConnectClick simp_thms)
qed

theorem connected_shown_after_persist_returns_witness:
  "connect_acquire env_post_fails wallet0
     = (None, wallet0\<lparr>provider := Some (BrowserProvider InjectedProvider), signer := Some Signer,
                      walletAddress := Some address0\<rparr>)
   \<and> connect_events env_post_fails wallet0 =
       [Fetch (POST_session (Some address0)), Settle (POST_session (Some address0)) False,
        Console Console_error ''Unable to persist wallet session'', ShowConnected]
   \<and> saving wallet_persisting
   \<and> connect_events env_post_fails wallet_persisting = [ShowConnected]
   \<and> saving (handleConnectClick env_post_fails wallet_persisting)"
proof -
  have a0: "connect_acquire env_post_fails wallet0
     = (None, wallet0\<lparr>provider := Some (BrowserProvider InjectedProvider), signer := Some Signer,
                      walletAddress := Some address0\<rparr>)"
    by (simp add: connect_acquire_def and_then_def connect_modal_def connect_injected_def
        connect_signer_def env_post_fails_def wallet0_def)
  have a1: "fst (connect_acquire env_post_fails wallet_persisting) = None"
    by (simp add: connect_acquire_def and_then_def connect_modal_def connect_injected_def
        connect_signer_def env_post_fails_def wallet0_def wallet_persisting_def
        persistWallet_begin_def wallet_defs)
  have p: "saving wallet_persisting" "button wallet_persisting \<noteq> None"
      "addressTarget wallet_persisting \<noteq> None"
    by (simp_all add: wallet_persisting_def persistWallet_begin_def wallet_defs wallet0_def)
  have q: "\<not> saving wallet0" "button wallet0 \<noteq> None" "addressTarget wallet0 \<noteq> None"
      "post_settles env_post_fails = Rejects"
    by (simp_all add: wallet0_def env_post_fails_def)
  from connected_shown_after_persist_returns [of env_post_fails wallet0]
       connected_shown_after_persist_returns [of env_post_fails wallet_persisting]
       a0 a1 p q
  show ?thesis
    by (cases "connect_acquire env_post_fails wallet_persisting") simp
qed

text \<open>
  C1, as stated, fails. With an injected provider, every wallet call succeeding and the
  POST rejected, the button reads \<open>Disconnect\<close>, the events of the click are the POST, its
  rejection, the console line and the painting of the connected state, and no fulfilled
  POST comes before that painting.
\<close>

theorem connected_shown_although_post_failed:
  "map_option btn_textContent (button (handleConnectClick env_post_fails wallet0)) = Some (lit ''Disconnect'')
   \<and> connect_events env_post_fails wallet0 =
       [Fetch (POST_session (Some address0)), Settle (POST_session (Some address0)) False,
        Console Console_error ''Unable to persist wallet session'', ShowConnected]
   \<and> \<not> shown_after_confirmed_post False (connect_events env_post_fails wallet0)"
  by (simp add: connect_events_def handleConnectClick_def connect_acquire_def and_then_def connect_modal_def
     connect_injected_def connect_signer_def persistWallet_def persistWallet_begin_def
     persistWallet_resume_def renderConnectedState_def wallet_defs env_post_fails_def wallet0_def)

subsection \<open>Single-flight persistence\<close>

lemma posts_positive: "POST_session a \<in> set xs \<Longrightarrow> filter is_post xs \<noteq> []"
  by (induction xs) auto

lemma posts_remove1_post:
  "POST_session a \<in> set xs \<Longrightarrow>
     length (filter is_post (remove1 (POST_session a) xs)) = length (filter is_post xs) - 1"
proof (induction xs)
  case Nil
  then show ?case by simp
next
  case (Cons x xs)
  show ?case
  proof (cases "x = POST_session a")
    case True
    then show ?thesis by simp
  next
    case False
    with Cons.prems have mem: "POST_session a \<in> set xs" by simp
    then have "filter is_post xs \<noteq> []" by (rule posts_positive)
    then have "0 < length (filter is_post xs)" by simp
    with Cons.IH [OF mem] False show ?thesis by simp
  qed
qed

lemma posts_remove1_other: "\<not> is_post r \<Longrightarrow> filter is_post (remove1 r xs) = filter is_post xs"
  by (induction xs) auto

lemma hydrate_resume_frame:
  "saving (hydrateFromServer_resume r s) = saving s"
  "inflight (hydrateFromServer_resume r s) = remove1 GET_session (inflight s)"
  by (simp_all add: hydrateFromServer_resume_def Let_def wallet_defs renderConnectedState_frame
        renderDisconnectedState_frame split: settled.splits option.splits)

lemma clear_resume_frame:
  "saving (clearWallet_resume oc s) = saving s"
  "inflight (clearWallet_resume oc s) = remove1 DELETE_session (inflight s)"
  by (simp_all add: clearWallet_resume_def Let_def wallet_defs split: settled.splits)

lemma step_guard_matches: "step s s' \<Longrightarrow> guard_matches s \<Longrightarrow> guard_matches s'"
proof (induction rule: step.induct)
  case (persist_call a s)
  then show ?case
    by (simp add: guard_matches_def posts_in_flight_def persistWallet_begin_def wallet_defs)
next
  case (persist_settles a s oc)
  have "filter is_post (inflight s) \<noteq> []"
    using persist_settles(1) by (rule posts_positive)
  then have "0 < posts_in_flight s"
    by (simp add: posts_in_flight_def)
  with persist_settles(2) have one: "posts_in_flight s = 1"
    by (simp add: guard_matches_def split: if_splits)
  have "inflight (persistWallet_resume a oc s) = remove1 (POST_session a) (inflight s)"
    and "\<not> saving (persistWallet_resume a oc s)"
    by (simp_all add: persistWallet_resume_def wallet_defs Let_def split: settled.splits)
  with one persist_settles(1) show ?case
    by (simp add: guard_matches_def posts_in_flight_def posts_remove1_post)
next
  case (clear_call s)
  then show ?case
    by (simp add: guard_matches_def posts_in_flight_def clearWallet_begin_def wallet_defs)
next
  case (clear_settles s oc)
  then show ?case
    by (simp add: guard_matches_def posts_in_flight_def clear_resume_frame posts_remove1_other)
next
  case (hydrate_call s)
  then show ?case
    by (simp add: guard_matches_def posts_in_flight_def hydrateFromServer_begin_def wallet_defs)
next
  case (hydrate_settles s r)
  then show ?case
    by (simp add: guard_matches_def posts_in_flight_def hydrate_resume_frame posts_remove1_other)
next
  case (other_code s' s)
  then show ?case by (simp add: guard_matches_def posts_in_flight_def)
qed

lemma reachable_guard_matches: "reachable s \<Longrightarrow> guard_matches s"
proof (induction rule: reachable.induct)
  case (start s)
  then show ?case by (simp add: guard_matches_def posts_in_flight_def)
next
  case (after s s')
  then show ?case by (simp add: step_guard_matches)
qed

text \<open>
  C4. In every state the module can reach, however its handlers interleave, at most one
  POST to the session endpoint is in flight, and \<open>saving\<close> is set exactly while one is;
  a call of \<open>persistWallet\<close> made while \<open>saving\<close> is set returns at once and leaves the
  state as it is: no request is issued and nothing is kept for later.
\<close>

theorem persist_is_single_flight:
  assumes "reachable s"
  shows "posts_in_flight s \<le> 1
         \<and> (saving s \<longleftrightarrow> posts_in_flight s = 1)
         \<and> (saving s \<longrightarrow> persistWallet_begin a s = (Returned, s))"
  using reachable_guard_matches [OF assms]
  by (simp add: guard_matches_def persistWallet_begin_def split: if_splits)

theorem persist_is_single_flight_witness:
  "reachable wallet_persisting
   \<and> posts_in_flight wallet_persisting = 1
   \<and> saving wallet_persisting
   \<and> persistWallet_begin (Some (lit ''0x0000000000000001'')) wallet_persisting
       = (Returned, wallet_persisting)"
proof -
  have "reachable wallet0"
    by (rule reachable.start) (simp_all add: wallet0_def)
  then have r: "reachable wallet_persisting"
    unfolding wallet_persisting_def by (rule reachable.after) (rule step.persist_call)
  have "saving wallet_persisting"
    by (simp add: wallet_persisting_def persistWallet_begin_def wallet_defs wallet0_def)
  with r persist_is_single_flight [OF r, of "Some (lit ''0x0000000000000001'')"]
  show ?thesis by simp
qed

text \<open>Each handler, run from start to end, is a path of steps.\<close>

lemma reachable_other:
  "reachable s \<Longrightarrow> saving s' = saving s \<Longrightarrow> inflight s' = inflight s \<Longrightarrow> reachable s'"
  by (rule reachable.after [OF _ step.other_code])

lemma reachable_persistWallet: "reachable s \<Longrightarrow> reachable (persistWallet a oc s)"
proof (cases "saving s")
  case True
  assume "reachable s"
  with True show ?thesis by (simp add: persistWallet_def persistWallet_begin_def)
next
  case False
  assume r: "reachable s"
  let ?s1 = "snd (persistWallet_begin a s)"
  have r1: "reachable ?s1" by (rule reachable.after [OF r step.persist_call])
  have "POST_session a \<in> set (inflight ?s1)"
    using False by (simp add: persistWallet_begin_def wallet_defs)
  then have "step ?s1 (persistWallet_resume a oc ?s1)" by (rule step.persist_settles)
  with r1 have "reachable (persistWallet_resume a oc ?s1)" by (rule reachable.after)
  with False show ?thesis by (simp add: persistWallet_def persistWallet_begin_def)
qed

lemma reachable_handleConnectClick: "reachable s \<Longrightarrow> reachable (handleConnectClick env s)"
proof -
  assume r: "reachable s"
  obtain e s1 where a: "connect_acquire env s = (e, s1)" by (cases "connect_acquire env s")
  then have fr: "saving s1 = saving s" "inflight s1 = inflight s"
    using connect_acquire_frame [of env s] by simp_all
  have r1: "reachable s1" using r fr by (rule reachable_other)
  show ?thesis
  proof (cases e)
    case None
    have "reachable (persistWallet (walletAddress s1) (post_settles env) s1)"
      using r1 by (rule reachable_persistWallet)
    then have "reachable (renderConnectedState (persistWallet (walletAddress s1) (post_settles env) s1))"
      by (rule reachable_other) (simp_all add: renderConnectedState_frame)
    with a None show ?thesis by (simp add: handleConnectClick_def)
  next
    case (Some err)
    have "reachable (renderDisconnectedState (lit ''Connect wallet'')
            (emit (Console Console_error ''Wallet connect failed'') s1))"
      using r1 by (rule reachable_other) (simp_all add: renderDisconnectedState_frame emit_def)
    with a Some show ?thesis by (simp add: handleConnectClick_def)
  qed
qed

lemma reachable_handleDisconnectClick: "reachable s \<Longrightarrow> reachable (handleDisconnectClick oc s)"
proof -
  assume r: "reachable s"
  let ?s0 = "s\<lparr>walletAddress := None, provider := None, signer := None\<rparr>"
  have r0: "reachable ?s0" using r by (rule reachable_other) simp_all
  have r1: "reachable (clearWallet_begin ?s0)" by (rule reachable.after [OF r0 step.clear_call])
  have "DELETE_session \<in> set (inflight (clearWallet_begin ?s0))"
    by (simp add: clearWallet_begin_def wallet_defs)
  then have "step (clearWallet_begin ?s0) (clearWallet_resume oc (clearWallet_begin ?s0))"
    by (rule step.clear_settles)
  with r1 have "reachable (clearWallet_resume oc (clearWallet_begin ?s0))" by (rule reachable.after)
  then have "reachable (renderDisconnectedState default_label (clearWallet_resume oc (clearWallet_begin ?s0)))"
    by (rule reachable_other) (simp_all add: renderDisconnectedState_frame)
  then show ?thesis
    by (simp add: handleDisconnectClick_def handleDisconnectClick_begin_def handleDisconnectClick_resume_def)
qed

lemma reachable_hydrateFromServer: "reachable s \<Longrightarrow> reachable (hydrateFromServer r s)"
proof -
  assume r: "reachable s"
  have r1: "reachable (hydrateFromServer_begin s)" by (rule reachable.after [OF r step.hydrate_call])
  have "GET_session \<in> set (inflight (hydrateFromServer_begin s))"
    by (simp add: hydrateFromServer_begin_def wallet_defs)
  then have "step (hydrateFromServer_begin s) (hydrateFromServer_resume r (hydrateFromServer_begin s))"
    by (rule step.hydrate_settles)
  with r1 show ?thesis unfolding hydrateFromServer_def by (rule reachable.after)
qed

lemma reachable_handleAccountsChanged: "reachable s \<Longrightarrow> reachable (handleAccountsChanged acc oc s)"
proof -
  assume r: "reachable s"
  show ?thesis
  proof (cases acc)
    case None
    with r show ?thesis by (simp add: handleAccountsChanged_def reachable_handleDisconnectClick)
  next
    case (Some as)
    show ?thesis
    proof (cases as)
      case Nil
      with r Some show ?thesis by (simp add: handleAccountsChanged_def reachable_handleDisconnectClick)
    next
      case (Cons a rest)
      have "reachable (s\<lparr>walletAddress := Some a\<rparr>)" using r by (rule reachable_other) simp_all
      then have "reachable (persistWallet (Some a) oc (s\<lparr>walletAddress := Some a\<rparr>))"
        by (rule reachable_persistWallet)
      then have "reachable (renderConnectedState (persistWallet (Some a) oc (s\<lparr>walletAddress := Some a\<rparr>)))"
        by (rule reachable_other) (simp_all add: renderConnectedState_frame)
      with Some Cons show ?thesis by (simp add: handleAccountsChanged_def)
    qed
  qed
qed

subsection \<open>The address label\<close>

lemma shortAddress_short: "length a < 10 \<Longrightarrow> shortAddress (Some a) = a"
  by (simp add: shortAddress_def)

lemma slice1_last4: "4 \<le> length a \<Longrightarrow> slice1 (- 4) a = drop (length a - 4) a"
proof -
  assume "4 \<le> length a"
  then have "nat (max (int (length a) + - 4) 0) = length a - 4" by linarith
  then show ?thesis by (simp add: slice1_def slice_index_def)
qed

lemma slice2_first6: "6 \<le> length a \<Longrightarrow> slice2 0 6 a = take 6 a"
  by (simp add: slice2_def slice_index_def)

lemma shortAddress_long:
  "10 \<le> length a \<Longrightarrow>
     shortAddress (Some a) = take 6 a @ shortAddress_separator @ drop (length a - 4) a"
  by (auto simp: shortAddress_def slice1_last4 slice2_first6)

text \<open>
  C2. Hydration with \<open>{ok: true, data: {address: "0xABCDEF1234567890"}}\<close> sets the
  button text to \<open>Disconnect\<close> and the label to \<open>0xABCD\<close>, the three code units
  U+00E2 U+20AC U+00A6 and \<open>7890\<close>; that is not \<open>0xABCD\<close>, the ellipsis U+2026 and
  \<open>7890\<close>.
\<close>

theorem hydrated_label_is_not_the_ellipsis:
  "map_option tgt_textContent (addressTarget wallet_connected)
     = Some (lit ''0xABCD'' @ [0xE2, 0x20AC, 0xA6] @ lit ''7890'')
   \<and> map_option tgt_textContent (addressTarget wallet_connected)
     \<noteq> Some (lit ''0xABCD'' @ [0x2026] @ lit ''7890'')
   \<and> map_option btn_textContent (button wallet_connected) = Some (lit ''Disconnect'')"
  by (simp add: wallet_connected_def hydrateFromServer_def hydrateFromServer_begin_def
        hydrateFromServer_resume_def body_address_def body0_def address0_def wallet0_def
        renderConnectedState_def wallet_defs shortAddress_def shortAddress_separator_def
        slice1_def slice2_def slice_index_def lit_def Let_def)

subsection \<open>Disconnect\<close>

text \<open>
  C5. A disconnect action on a page that has the button and the label, whether the DELETE
  is fulfilled or rejected, leaves address, provider and signer cleared, the button
  reading \<open>Connect wallet\<close> with the connect handler bound, and the label reading
  \<open>Not connected\<close>. A rejected DELETE adds a console line and changes nothing else: but
  for the trace, both outcomes end in the same state.
\<close>

theorem disconnect_ends_disconnected:
  assumes "button s = Some b" and "addressTarget s = Some t"
  shows "walletAddress (handleDisconnectClick oc s) = None
         \<and> provider (handleDisconnectClick oc s) = None
         \<and> signer (handleDisconnectClick oc s) = None
         \<and> button (handleDisconnectClick oc s) =
             Some (b\<lparr>btn_textContent := lit ''Connect wallet'',
                     btn_classList := insert (lit ''ui-button--primary'') (btn_classList b)
                                        - {lit ''ui-button--secondary''},
                     btn_click := insert HandleConnectClick (btn_click b - {HandleDisconnectClick}),
                     btn_connectedAddress := None\<rparr>)
         \<and> addressTarget (handleDisconnectClick oc s) =
             Some (t\<lparr>tgt_textContent := lit ''Not connected'',
                     tgt_state := Some (lit ''disconnected'')\<rparr>)
         \<and> trace (handleDisconnectClick oc s) =
             trace s @ [Fetch DELETE_session]
             @ (case oc of
                  Rejects \<Rightarrow> [Settle DELETE_session False,
                               Console Console_error ''Unable to clear wallet session'']
                | Resolves _ \<Rightarrow> [Settle DELETE_session True])
             @ [ShowDisconnected]
         \<and> (handleDisconnectClick Rejects s)\<lparr>trace := []\<rparr>
             = (handleDisconnectClick (Resolves ()) s)\<lparr>trace := []\<rparr>"
  using assms
  by (simp add: handleDisconnectClick_def handleDisconnectClick_begin_def
        handleDisconnectClick_resume_def clearWallet_begin_def clearWallet_resume_def
        renderDisconnectedState_def default_label_def wallet_defs Let_def split: settled.splits)

theorem disconnect_ends_disconnected_witness:
  "button wallet_connected \<noteq> None
   \<and> addressTarget wallet_connected \<noteq> None
   \<and> map_option btn_textContent (button wallet_connected) = Some (lit ''Disconnect'')
   \<and> walletAddress (handleDisconnectClick Rejects wallet_connected) = None
   \<and> map_option btn_textContent (button (handleDisconnectClick Rejects wallet_connected))
       = Some (lit ''Connect wallet'')
   \<and> map_option tgt_textContent (addressTarget (handleDisconnectClick Rejects wallet_connected))
       = Some (lit ''Not connected'')"
proof -
  obtain b t where bt: "button wallet_connected = Some b" "addressTarget wallet_connected = Some t"
    by (simp add: wallet_connected_def hydrateFromServer_def hydrateFromServer_begin_def
        hydrateFromServer_resume_def body_address_def body0_def address0_def wallet0_def
        renderConnectedState_def wallet_defs Let_def lit_def)
  have "map_option btn_textContent (button wallet_connected) = Some (lit ''Disconnect'')"
    by (simp add: wallet_connected_def hydrateFromServer_def hydrateFromServer_begin_def
        hydrateFromServer_resume_def body_address_def body0_def address0_def wallet0_def
        renderConnectedState_def wallet_defs Let_def lit_def)
  with bt disconnect_ends_disconnected [OF bt, of Rejects] show ?thesis by simp
qed

subsection \<open>Release of the guard\<close>

text \<open>
  C9. When the POST of a \<open>persistWallet\<close> call settles, fulfilled or rejected, the rest
  of the call sets \<open>saving\<close> to false; so a call that issued its POST ends with \<open>saving\<close>
  false, and the next call of \<open>persistWallet\<close> is not skipped: it issues a POST of its own.
\<close>

theorem persist_releases_guard:
  "saving (persistWallet_resume a oc s) = False
   \<and> (\<not> saving s \<longrightarrow> saving (persistWallet a oc s) = False)
   \<and> persistWallet_begin a' (persistWallet_resume a oc s)
       = (Awaiting, issue (POST_session a') ((persistWallet_resume a oc s)\<lparr>saving := True\<rparr>))"
  by (simp add: persistWallet_def persistWallet_begin_def persistWallet_resume_def Let_def
        wallet_defs split: settled.splits)

theorem persist_releases_guard_witness:
  "\<not> saving wallet0
   \<and> saving (persistWallet (Some address0) Rejects wallet0) = False
   \<and> fst (persistWallet_begin (Some address0) (persistWallet (Some address0) Rejects wallet0)) = Awaiting"
  using persist_releases_guard [of "Some address0" Rejects wallet0 "Some address0"]
        persist_releases_guard [of "Some address0" Rejects
           "snd (persistWallet_begin (Some address0) wallet0)" "Some address0"]
  by (simp add: wallet0_def persistWallet_def persistWallet_begin_def)

section \<open>Properties of MonitorStream\<close>

subsection \<open>The tree operations on a table\<close>




lemma some_element_append:
  "some_element P (ms @ ns) = (some_element P ms \<or> some_element P ns)"
  by (induction P ms rule: some_element.induct) auto

















subsection \<open>Upsert\<close>



lemma onmessage_snapshot:
  "onmessage parse fmt fmt_sum (snapshot_message snap) s = upsertRow parse fmt fmt_sum snap s"
  by (simp add: onmessage_def snapshot_message_def)





subsection \<open>What the parser builds for the concrete snapshots\<close>

lemmas parse_defs = parse_nested_def is_space_def to_lower_def text_token_def tag_token_def
  add_node_def close_top_def Let_def

lemmas markup_defs = row_markup_def line_def cell_num_def fmt0_def fmt_sum0_def
  lit_def slice1_def slice2_def slice_index_def ellipsis_def

lemmas tree_defs = cells_of_def indent_def num_cell_def

lemma parse_snap_a:
  "parse_nested (row_markup fmt0 fmt_sum0 snap_a)
     = cells_of snap_a [Text (lit ''ETH'')] [Text (lit ''open'')]"
  by (simp add: parse_defs markup_defs tree_defs snap_a_def)



lemma parse_snap_class:
  "parse_nested (row_markup fmt0 fmt_sum0 snap_class)
     = cells_of snap_class [Text (lit ''ETH'')]
         [Element (lit ''i'') [(lit ''class'', lit ''cell-empty'')] [Text (lit ''x'')]]"
  by (simp add: parse_defs markup_defs tree_defs snap_class_def)




text \<open>
  Likewise with the class: after a message whose status has the markup of an element of
  class \<open>cell-empty\<close>, the message of a new run removes the status cell of the first row
  (the parent of that element), which is left with nine cells.
\<close>

lemma cell_removed_by_markup:
  "map_option cells_per_row
     (tbody (onmessage parse_nested fmt0 fmt_sum0 (snapshot_message snap_a)
              (onmessage parse_nested fmt0 fmt_sum0 (snapshot_message snap_class) monitor0)))
     = Some [9, 10]"
proof -
  have r1: "renderRow parse_nested fmt0 fmt_sum0 snap_class
      = Element (lit ''tr'') [(lit ''id'', lit ''run-aaaaaaaaaaaa'')]
          (cells_of snap_class [Text (lit ''ETH'')]
             [Element (lit ''i'') [(lit ''class'', lit ''cell-empty'')] [Text (lit ''x'')]])"
    by (simp only: renderRow_def parse_snap_class) (simp add: snap_class_def lit_def)
  have r2: "renderRow parse_nested fmt0 fmt_sum0 snap_a
      = Element (lit ''tr'') [(lit ''id'', lit ''run-abcdef123456'')]
          (cells_of snap_a [Text (lit ''ETH'')] [Text (lit ''open'')])"
    by (simp only: renderRow_def parse_snap_a) (simp add: snap_a_def lit_def)
  show ?thesis
    by (simp only: onmessage_snapshot upsertRow_def Let_def r1 r2)
       (simp add: monitor0_def empty_row_def tree_defs has_id_def is_cell_empty_def classList_def
          cells_per_row_def is_td_def childNodes_def snap_a_def snap_class_def lit_def is_space_def)
qed

subsection \<open>Messages that carry no snapshot\<close>

text \<open>
  C10. A message whose text does not parse adds a line to the console and leaves the
  table as it is; a message whose payload is \<open>null\<close>, has \<open>ok\<close> false or has no
  \<open>data\<close> leaves the whole state as it is.
\<close>

theorem bad_message_leaves_table:
  "onmessage parse fmt fmt_sum (Throws e) s = s\<lparr>console := console s @ [''SSE parse error'']\<rparr>
   \<and> tbody (onmessage parse fmt fmt_sum (Throws e) s) = tbody s
   \<and> onmessage parse fmt fmt_sum (Parsed None) s = s
   \<and> (\<not> payload_ok p \<or> payload_data p = None \<longrightarrow> onmessage parse fmt fmt_sum (Parsed (Some p)) s = s)"
  by (auto simp: onmessage_def split: option.splits)

theorem bad_message_leaves_table_witness:
  "tbody (onmessage parse_nested fmt0 fmt_sum0 (Throws SyntaxError) monitor0) = Some [empty_row]
   \<and> \<not> payload_ok \<lparr>payload_ok = False, payload_data = Some snap_a\<rparr>
   \<and> onmessage parse_nested fmt0 fmt_sum0 (Parsed (Some \<lparr>payload_ok = False, payload_data = Some snap_a\<rparr>)) monitor0
       = monitor0
   \<and> payload_data \<lparr>payload_ok = True, payload_data = None :: jsstring snapshot option\<rparr> = None
   \<and> onmessage parse_nested fmt0 fmt_sum0 (Parsed (Some \<lparr>payload_ok = True, payload_data = None\<rparr>)) monitor0
       = monitor0
   \<and> tbody (onmessage parse_nested fmt0 fmt_sum0 (Parsed (Some \<lparr>payload_ok = True, payload_data = Some snap_a\<rparr>)) monitor0)
       \<noteq> tbody monitor0"
  using bad_message_leaves_table [of parse_nested fmt0 fmt_sum0 SyntaxError monitor0
           "\<lparr>payload_ok = False, payload_data = Some snap_a\<rparr>"]
        bad_message_leaves_table [of parse_nested fmt0 fmt_sum0 SyntaxError monitor0
           "\<lparr>payload_ok = True, payload_data = None\<rparr>"]
  by (simp add: monitor0_def onmessage_def upsertRow_def Let_def has_id_def empty_row_def
        is_cell_empty_def classList_def renderRow_def lit_def is_space_def)

subsection \<open>Reconnecting\<close>

lemma error_rounds_sources:
  "timers s = [] \<Longrightarrow> sources s = cs @ [Live] \<Longrightarrow>
     sources (error_rounds n s) = cs @ replicate n Closed @ [Live] \<and> timers (error_rounds n s) = []"
proof (induction n arbitrary: s cs)
  case 0
  then show ?case by simp
next
  case (Suc n)
  let ?s1 = "timeout_fires True (onerror (length (sources s) - 1) s)"
  have t: "timers ?s1 = []" and c: "sources ?s1 = (cs @ [Closed]) @ [Live]"
    using Suc.prems by (simp_all add: timeout_fires_def onerror_def connectSSE_def)
  from Suc.IH [OF t c] show ?case
    by (simp add: replicate_app_Cons_same)
qed

text \<open>
  C8. The error handler of an \<open>EventSource\<close> closes that one, leaves the others and the
  table alone, and sets exactly one timeout, of 1500 ms, in whatever state it runs; when
  the timeout fires, a new \<open>EventSource\<close> is made. After any number \<open>n\<close> of errors,
  each on the newest connection, \<open>n\<close> connections are closed, one is live and no timeout
  is pending: nothing counts the errors and nothing changes the delay.
\<close>

theorem error_schedules_one_reconnect:
  "timers (onerror i s) = timers s @ [1500]
   \<and> tbody (onerror i s) = tbody s
   \<and> (i < length (sources s) \<longrightarrow>
        sources (onerror i s) ! i = Closed
        \<and> (\<forall>j. j \<noteq> i \<longrightarrow> sources (onerror i s) ! j = sources s ! j))
   \<and> sources (timeout_fires True (onerror i s)) =
        (sources s)[i := Closed] @ [Live]
   \<and> (timers s = [] \<and> sources s = cs @ [Live] \<longrightarrow>
        sources (error_rounds n s) = cs @ replicate n Closed @ [Live]
        \<and> timers (error_rounds n s) = [])"
  using error_rounds_sources [of s cs n]
  by (auto simp: onerror_def timeout_fires_def connectSSE_def split: list.splits)

theorem error_schedules_one_reconnect_witness:
  "timers (connectSSE True monitor0) = []
   \<and> sources (connectSSE True monitor0) = [] @ [Live]
   \<and> timers (onerror 0 (connectSSE True monitor0)) = [1500]
   \<and> sources (onerror 0 (connectSSE True monitor0)) ! 0 = Closed
   \<and> sources (timeout_fires True (onerror 0 (connectSSE True monitor0))) = [Closed, Live]
   \<and> sources (error_rounds 3 (connectSSE True monitor0)) = [Closed, Closed, Closed, Live]
   \<and> timers (error_rounds 3 (connectSSE True monitor0)) = []"
  using error_schedules_one_reconnect [of 0 "connectSSE True monitor0" "[]" 3]
  by (simp add: connectSSE_def monitor0_def onerror_def timeout_fires_def numeral_3_eq_3)

end
